theory Spec2Isabelle
  imports Main
begin

unbundle bit_operations_syntax

section \<open>Python values used by the version classes\<close>

text \<open>
  Python's \<open>str\<close> is modelled as \<open>string\<close>: a list of characters with code points
  0 to 255. The character classes below are the ones Python uses on that range.
  Python's \<open>int\<close> is unbounded and is modelled as \<open>int\<close>. Converting between
  \<open>int\<close> and \<open>str\<close> raises \<open>ValueError\<close> when more than
  \<open>sys.int_max_str_digits\<close> decimal digits are involved; the scripts require Python 3.11
  and never change the interpreter's default of 4300.
\<close>

datatype error = MalformedVersionError | ValueError | TypeError | KeyError

definition int_max_str_digits :: nat where
  "int_max_str_digits = 4300"

definition code_point :: "char \<Rightarrow> nat" where
  "code_point c = of_char c"

text \<open>A decimal digit: what the pattern \<open>\d\<close> and \<open>int()\<close> accept.\<close>

definition is_decimal :: "char \<Rightarrow> bool" where
  "is_decimal c = (48 \<le> code_point c \<and> code_point c \<le> 57)"

definition digit_val :: "char \<Rightarrow> nat" where
  "digit_val c = code_point c - 48"

definition digit_char :: "nat \<Rightarrow> char" where
  "digit_char d = ''0123456789'' ! d"

text \<open>
  \<open>str.isdigit()\<close> also accepts the superscript digits U+00B2, U+00B3 and U+00B9,
  which \<open>int()\<close> rejects.
\<close>

definition is_digit_char :: "char \<Rightarrow> bool" where
  "is_digit_char c =
     (is_decimal c \<or> code_point c = 178 \<or> code_point c = 179 \<or> code_point c = 185)"

definition isdigit :: "string \<Rightarrow> bool" where
  "isdigit s = (s \<noteq> [] \<and> list_all is_digit_char s)"

text \<open>The white space \<open>int()\<close> skips around a literal.\<close>

definition is_int_space :: "char \<Rightarrow> bool" where
  "is_int_space c =
     ((9 \<le> code_point c \<and> code_point c \<le> 13) \<or> code_point c = 32
      \<or> code_point c = 133 \<or> code_point c = 160)"

text \<open>
  The digits of a literal after the first one: decimal digits, with single underscores
  allowed between two digits. The result is the value read, the number of digits read
  (underscores not counted) and the rest of the text.
\<close>

fun scan_int :: "nat \<Rightarrow> nat \<Rightarrow> string \<Rightarrow> (nat \<times> nat \<times> string) option" where
  "scan_int acc digits [] = Some (acc, digits, [])"
| "scan_int acc digits (c # cs) =
     (if is_decimal c then scan_int (10 * acc + digit_val c) (Suc digits) cs
      else if c = CHR ''_'' then
        (case cs of
           [] \<Rightarrow> None
         | d # ds \<Rightarrow>
             if is_decimal d then scan_int (10 * acc + digit_val d) (Suc digits) ds else None)
      else Some (acc, digits, c # cs))"

text \<open>
  \<open>int(s)\<close> for a string \<open>s\<close>: raises \<open>ValueError\<close> on an invalid literal and on a
  literal of more than \<open>int_max_str_digits\<close> digits, leading zeros counted.
\<close>

definition py_int :: "string \<Rightarrow> error + int" where
  "py_int s =
     (let s1 = dropWhile is_int_space s;
          sign = (case s1 of c # _ \<Rightarrow> if c = CHR ''-'' then - 1 else 1 | [] \<Rightarrow> (1::int));
          s2 = (case s1 of c # r \<Rightarrow> if c = CHR ''-'' \<or> c = CHR ''+'' then r else s1 | [] \<Rightarrow> s1)
      in case s2 of
           [] \<Rightarrow> Inl ValueError
         | c # cs \<Rightarrow>
             if is_decimal c then
               (case scan_int (digit_val c) 1 cs of
                  None \<Rightarrow> Inl ValueError
                | Some (n, digits, rest) \<Rightarrow>
                    if digits > int_max_str_digits then Inl ValueError
                    else if dropWhile is_int_space rest = [] then Inr (sign * int n)
                    else Inl ValueError)
             else Inl ValueError)"

text \<open>\<open>int(x)\<close> where \<open>x\<close> is a string or \<open>None\<close>: \<open>None\<close> raises \<open>TypeError\<close>.\<close>

definition py_int_opt :: "string option \<Rightarrow> error + int" where
  "py_int_opt x = (case x of None \<Rightarrow> Inl TypeError | Some s \<Rightarrow> py_int s)"

text \<open>The decimal digits of a natural number.\<close>

fun str_nat :: "nat \<Rightarrow> string" where
  "str_nat n =
     (if n < 10 then [digit_char n] else str_nat (n div 10) @ [digit_char (n mod 10)])"

declare str_nat.simps [simp del]

text \<open>
  The decimal rendering of an integer, as \<open>str()\<close> and an f-string produce it: raises
  \<open>ValueError\<close> when the number has more than \<open>int_max_str_digits\<close> digits.
\<close>

definition str_int :: "int \<Rightarrow> error + string" where
  "str_int i =
     (let digits = str_nat (nat \<bar>i\<bar>)
      in if length digits > int_max_str_digits then Inl ValueError
         else Inr (if i < 0 then CHR ''-'' # digits else digits))"

text \<open>\<open>s.split(c)\<close> for a one-character separator: never returns an empty list.\<close>

fun split :: "char \<Rightarrow> string \<Rightarrow> string list" where
  "split sep [] = [[]]"
| "split sep (c # cs) =
     (if c = sep then [] # split sep cs
      else (case split sep cs of
              [] \<Rightarrow> [[c]]
            | seg # segs \<Rightarrow> (c # seg) # segs))"

text \<open>The truth value of a string: the empty string is false.\<close>

definition str_truthy :: "string \<Rightarrow> bool" where
  "str_truthy s = (s \<noteq> [])"

definition opt_truthy :: "string option \<Rightarrow> bool" where
  "opt_truthy x = (case x of None \<Rightarrow> False | Some s \<Rightarrow> str_truthy s)"

text \<open>\<open>s < t\<close> on strings: lexicographic on code points.\<close>

fun str_lt :: "string \<Rightarrow> string \<Rightarrow> bool" where
  "str_lt [] [] = False"
| "str_lt [] (y # ys) = True"
| "str_lt (x # xs) [] = False"
| "str_lt (x # xs) (y # ys) =
     (if code_point x < code_point y then True
      else if code_point y < code_point x then False
      else str_lt xs ys)"

section \<open>The dotted version (scripts/common/version.py)\<close>

record Version =
  major :: int
  minor :: int
  build :: int
  revision :: int

text \<open>The constructor, with the defaults of the dataclass fields.\<close>

definition Version1 :: "int \<Rightarrow> Version" where
  "Version1 a = \<lparr>major = a, minor = 0, build = - 1, revision = - 1\<rparr>"

definition Version2 :: "int \<Rightarrow> int \<Rightarrow> Version" where
  "Version2 a b = \<lparr>major = a, minor = b, build = - 1, revision = - 1\<rparr>"

definition Version3 :: "int \<Rightarrow> int \<Rightarrow> int \<Rightarrow> Version" where
  "Version3 a b c = \<lparr>major = a, minor = b, build = c, revision = - 1\<rparr>"

definition Version4 :: "int \<Rightarrow> int \<Rightarrow> int \<Rightarrow> int \<Rightarrow> Version" where
  "Version4 a b c d = \<lparr>major = a, minor = b, build = c, revision = d\<rparr>"

text \<open>Sequencing of calls that may raise.\<close>

definition bind :: "error + 'a \<Rightarrow> ('a \<Rightarrow> error + 'b) \<Rightarrow> error + 'b" where
  "bind m f = (case m of Inl e \<Rightarrow> Inl e | Inr x \<Rightarrow> f x)"

text \<open>
  \<open>Version.parse\<close>. The guard is written \<open>"+" or "-" in version\<close> in the source,
  which Python reads as \<open>"+" or ("-" in version)\<close>: the truth value of the string
  \<open>"+"\<close>, or else the membership test.
\<close>

definition Version_parse :: "string \<Rightarrow> error + Version" where
  "Version_parse version =
     (if str_truthy ''+'' \<or> CHR ''-'' \<in> set version then Inl MalformedVersionError
      else
        (let segments = split (CHR ''.'') version;
             total_segments = length segments
         in if total_segments = 0 \<or> total_segments > 4 then Inl MalformedVersionError
            else if total_segments = 1 then
              bind (py_int (segments ! 0)) (\<lambda>a. Inr (Version1 a))
            else if total_segments = 2 then
              bind (py_int (segments ! 0)) (\<lambda>a.
              bind (py_int (segments ! 1)) (\<lambda>b. Inr (Version2 a b)))
            else if total_segments = 3 then
              bind (py_int (segments ! 0)) (\<lambda>a.
              bind (py_int (segments ! 1)) (\<lambda>b.
              bind (py_int (segments ! 2)) (\<lambda>c. Inr (Version3 a b c))))
            else
              bind (py_int (segments ! 0)) (\<lambda>a.
              bind (py_int (segments ! 1)) (\<lambda>b.
              bind (py_int (segments ! 2)) (\<lambda>c.
              bind (py_int (segments ! 3)) (\<lambda>d. Inr (Version4 a b c d)))))))"

definition Version_to_string :: "Version \<Rightarrow> int \<Rightarrow> error + string" where
  "Version_to_string v field_count =
     (if field_count \<le> 0 \<or> field_count > 4 then Inl ValueError
      else if field_count = 1 then str_int (major v)
      else if field_count = 2 then
        bind (str_int (major v)) (\<lambda>a.
        bind (str_int (minor v)) (\<lambda>b. Inr (a @ ''.'' @ b)))
      else if field_count = 3 then
        bind (str_int (major v)) (\<lambda>a.
        bind (str_int (minor v)) (\<lambda>b.
        bind (str_int (build v)) (\<lambda>c. Inr (a @ ''.'' @ b @ ''.'' @ c))))
      else
        bind (str_int (major v)) (\<lambda>a.
        bind (str_int (minor v)) (\<lambda>b.
        bind (str_int (build v)) (\<lambda>c.
        bind (str_int (revision v)) (\<lambda>d. Inr (a @ ''.'' @ b @ ''.'' @ c @ ''.'' @ d))))))"

text \<open>\<open>Version.__str__\<close>: three independent \<open>if\<close> statements, each assigning \<open>fields\<close>.\<close>

definition Version_str :: "Version \<Rightarrow> error + string" where
  "Version_str v =
     (let fields = (1::int);
          fields = (if revision v > 0 then 4 else fields);
          fields = (if build v > 0 then 3 else fields);
          fields = (if minor v > 0 then 2 else fields)
      in Version_to_string v fields)"

text \<open>\<open>Version.__hash__\<close>, on Python's unbounded integers.\<close>

definition Version_hash :: "Version \<Rightarrow> int" where
  "Version_hash v =
     (let accumulator = (0::int);
          accumulator = accumulator OR push_bit 28 (major v AND 0x0000000F);
          accumulator = accumulator OR push_bit 20 (minor v AND 0x000000FF);
          accumulator = accumulator OR push_bit 12 (build v AND 0x00000FFF);
          accumulator = accumulator OR (revision v AND 0x00000FFF)
      in accumulator)"

section \<open>The semantic version (scripts/cli/utils/versioning.py)\<close>

record SemanticVersion =
  sv_major :: int
  sv_minor :: int
  patch :: int
  pre_release :: "string option"
  build_metadata :: "string option"

subsection \<open>Operands of a comparison\<close>

text \<open>
  The comparison methods take any object as their second operand and test its class
  with \<open>isinstance\<close>. The objects considered are the two version classes and the
  built-in values \<open>int\<close>, \<open>str\<close> and \<open>None\<close>.
\<close>

datatype pyobj = DottedV Version | SemV SemanticVersion | IntV int | StrV string | NoneV

text \<open>What a rich comparison method returns: a truth value, or \<open>NotImplemented\<close>.\<close>

datatype cmp = NotImplemented | Result bool

subsection \<open>Comparison methods of the dotted version\<close>

definition Version_eq :: "Version \<Rightarrow> pyobj \<Rightarrow> bool" where
  "Version_eq self other =
     (case other of
        DottedV v \<Rightarrow>
          major self = major v \<and> minor self = minor v \<and> build self = build v
          \<and> revision self = revision v
      | _ \<Rightarrow> False)"

definition Version_lt :: "Version \<Rightarrow> pyobj \<Rightarrow> error + bool" where
  "Version_lt self other =
     (case other of
        DottedV v \<Rightarrow>
          Inr (if major self < major v then True
               else if minor self < minor v then True
               else if build self < build v then True
               else if revision self < revision v then True
               else False)
      | _ \<Rightarrow> Inl ValueError)"


subsection \<open>The pattern \<open>SEMVER_REGEX\<close>\<close>

text \<open>
  The characters of the class \<open>\w\<close>, for code points 0 to 255: the alphanumeric
  characters and the underscore.
\<close>

definition is_word_char :: "char \<Rightarrow> bool" where
  "is_word_char c =
     (let n = code_point c in
        (48 \<le> n \<and> n \<le> 57) \<or> (65 \<le> n \<and> n \<le> 90) \<or> n = 95 \<or> (97 \<le> n \<and> n \<le> 122)
        \<or> n = 170 \<or> n = 178 \<or> n = 179 \<or> n = 181 \<or> n = 185 \<or> n = 186
        \<or> (188 \<le> n \<and> n \<le> 190) \<or> (192 \<le> n \<and> n \<le> 214) \<or> (216 \<le> n \<and> n \<le> 246)
        \<or> 248 \<le> n)"

text \<open>The class \<open>[\w.-]\<close>.\<close>

definition is_tag_char :: "char \<Rightarrow> bool" where
  "is_tag_char c = (is_word_char c \<or> c = CHR ''.'' \<or> c = CHR ''-'')"

text \<open>
  The pattern is matched from left to right. Each repetition is greedy and is followed
  in the pattern only by characters outside its own class (a dot, a hyphen, a plus sign or
  the end of the text), and the text after a skipped optional group starts with the
  character that opens the group, which nothing later in the pattern accepts. Giving
  characters back or skipping a group that can be matched therefore never turns a failure
  into a match, and the matcher is written without backtracking.

  \<open>0|[1-9]\d*\<close>: the matched text and the rest.
\<close>

fun match_number :: "string \<Rightarrow> (string \<times> string) option" where
  "match_number [] = None"
| "match_number (c # cs) =
     (if c = CHR ''0'' then Some ([c], cs)
      else if is_decimal c then Some (c # takeWhile is_decimal cs, dropWhile is_decimal cs)
      else None)"

text \<open>The optional group \<open>(\.(0|[1-9]\d*))?\<close>: the text of the inner group if it took part.\<close>

definition match_patch_group :: "string \<Rightarrow> string option \<times> string" where
  "match_patch_group s =
     (case s of
        [] \<Rightarrow> (None, s)
      | c # cs \<Rightarrow>
          if c = CHR ''.'' then
            (case match_number cs of None \<Rightarrow> (None, s) | Some (p, r) \<Rightarrow> (Some p, r))
          else (None, s))"

text \<open>The optional groups \<open>(-([\w.-]+))?\<close> and \<open>(\+([\w.-]+))?\<close>, by their opening character.\<close>

definition match_tag_group :: "char \<Rightarrow> string \<Rightarrow> string option \<times> string" where
  "match_tag_group opening s =
     (case s of
        [] \<Rightarrow> (None, s)
      | c # cs \<Rightarrow>
          if c = opening \<and> takeWhile is_tag_char cs \<noteq> [] then
            (Some (takeWhile is_tag_char cs), dropWhile is_tag_char cs)
          else (None, s))"

text \<open>\<open>$\<close>: the end of the text, or just before a newline that ends the text.\<close>

definition at_end :: "string \<Rightarrow> bool" where
  "at_end s = (s = [] \<or> s = [CHR 0x0A])"

text \<open>
  \<open>SEMVER_REGEX.match(s)\<close> followed by \<open>groupdict()\<close>: every named group is a key of
  the dictionary, and a group that took no part in the match has the value \<open>None\<close>.
\<close>

type_synonym groupdict = "string \<rightharpoonup> string option"

definition SEMVER_REGEX_match :: "string \<Rightarrow> groupdict option" where
  "SEMVER_REGEX_match s =
     (case match_number s of
        None \<Rightarrow> None
      | Some (g_major, r1) \<Rightarrow>
          (case r1 of
             [] \<Rightarrow> None
           | c # r2 \<Rightarrow>
               if c \<noteq> CHR ''.'' then None
               else
                 (case match_number r2 of
                    None \<Rightarrow> None
                  | Some (g_minor, r3) \<Rightarrow>
                      (let (g_patch, r4) = match_patch_group r3;
                           (g_pre, r5) = match_tag_group (CHR ''-'') r4;
                           (g_build, r6) = match_tag_group (CHR ''+'') r5
                       in if at_end r6 then
                            Some [''major'' \<mapsto> Some g_major, ''minor'' \<mapsto> Some g_minor,
                                  ''patch'' \<mapsto> g_patch, ''pre_release'' \<mapsto> g_pre,
                                  ''build_metadata'' \<mapsto> g_build]
                          else None))))"

text \<open>\<open>d[k]\<close> and \<open>d.get(k, default)\<close>: the default is used only when the key is absent.\<close>

definition dict_index :: "('k \<rightharpoonup> 'v) \<Rightarrow> 'k \<Rightarrow> error + 'v" where
  "dict_index d k = (case d k of None \<Rightarrow> Inl KeyError | Some v \<Rightarrow> Inr v)"

definition dict_get :: "('k \<rightharpoonup> 'v) \<Rightarrow> 'k \<Rightarrow> 'v \<Rightarrow> 'v" where
  "dict_get d k dflt = (case d k of None \<Rightarrow> dflt | Some v \<Rightarrow> v)"

subsection \<open>Construction and parsing\<close>

text \<open>\<open>SemanticVersion.__init__\<close>, called with all five arguments as \<open>parse_version\<close> does.\<close>

definition SemanticVersion_init ::
  "string option \<Rightarrow> string option \<Rightarrow> string option \<Rightarrow> string option \<Rightarrow> string option
   \<Rightarrow> error + SemanticVersion" where
  "SemanticVersion_init a b c pre bm =
     bind (py_int_opt a) (\<lambda>x.
     bind (py_int_opt b) (\<lambda>y.
     bind (py_int_opt c) (\<lambda>z.
       Inr \<lparr>sv_major = x, sv_minor = y, patch = z, pre_release = pre,
            build_metadata = bm\<rparr>)))"

definition parse_version :: "string \<Rightarrow> error + SemanticVersion" where
  "parse_version version_str =
     (case SEMVER_REGEX_match version_str of
        None \<Rightarrow> Inl ValueError
      | Some groups \<Rightarrow>
          bind (dict_index groups ''major'') (\<lambda>g_major.
          bind (dict_index groups ''minor'') (\<lambda>g_minor.
            SemanticVersion_init g_major g_minor
              (dict_get groups ''patch'' (Some ''0''))
              (dict_get groups ''pre_release'' None)
              (dict_get groups ''build_metadata'' None))))"

subsection \<open>Comparison and rendering\<close>

definition SemVer_eq :: "SemanticVersion \<Rightarrow> pyobj \<Rightarrow> cmp" where
  "SemVer_eq self other =
     (case other of
        SemV v \<Rightarrow>
          Result (sv_major self = sv_major v \<and> sv_minor self = sv_minor v
                  \<and> patch self = patch v \<and> pre_release self = pre_release v)
      | _ \<Rightarrow> NotImplemented)"

text \<open>The operands of \<open><\<close> inside the loop: an integer or the token itself.\<close>

datatype key = IntKey int | StrKey string

definition token_key :: "string \<Rightarrow> error + key" where
  "token_key sub =
     (if isdigit sub then bind (py_int sub) (\<lambda>n. Inr (IntKey n)) else Inr (StrKey sub))"

text \<open>\<open><\<close> on two such operands: an integer against a string raises \<open>TypeError\<close>.\<close>

fun key_lt :: "key \<Rightarrow> key \<Rightarrow> error + bool" where
  "key_lt (IntKey a) (IntKey b) = Inr (a < b)"
| "key_lt (StrKey a) (StrKey b) = Inr (str_lt a b)"
| "key_lt (IntKey a) (StrKey b) = Inl TypeError"
| "key_lt (StrKey a) (IntKey b) = Inl TypeError"

text \<open>
  The loop over the zipped tokens. \<open>Some r\<close> is a \<open>return r\<close> inside the loop,
  \<open>None\<close> is the loop running to its end. A \<open>ValueError\<close> is caught and the loop goes
  on; any other exception leaves the function. The second test is on \<open>result > 0\<close>,
  where the truth value counts as 1 or 0.
\<close>

fun compare_loop :: "(string \<times> string) list \<Rightarrow> error + int option" where
  "compare_loop [] = Inr None"
| "compare_loop ((sub1, sub2) # rest) =
     (case bind (token_key sub1) (\<lambda>k1. bind (token_key sub2) (\<lambda>k2. key_lt k1 k2)) of
        Inl e \<Rightarrow> if e = ValueError then compare_loop rest else Inl e
      | Inr result \<Rightarrow>
          if result then Inr (Some (- 1))
          else if (if result then 1 else (0::int)) > 0 then Inr (Some 1)
          else compare_loop rest)"

definition compare_pre_release :: "string option \<Rightarrow> string option \<Rightarrow> error + int" where
  "compare_pre_release pr1 pr2 =
     (case pr1 of
        None \<Rightarrow> Inr (if opt_truthy pr2 then 1 else 0)
      | Some p1 \<Rightarrow>
          (case pr2 of
             None \<Rightarrow> Inr (- 1)
           | Some p2 \<Rightarrow>
               (let pr1_parts = split (CHR ''.'') p1;
                    pr2_parts = split (CHR ''.'') p2
                in case compare_loop (zip pr1_parts pr2_parts) of
                     Inl e \<Rightarrow> Inl e
                   | Inr (Some r) \<Rightarrow> Inr r
                   | Inr None \<Rightarrow> Inr (int (length pr1_parts) - int (length pr2_parts)))))"

text \<open>\<open><\<close> on two triples of integers.\<close>

definition triple_lt :: "int \<times> int \<times> int \<Rightarrow> int \<times> int \<times> int \<Rightarrow> bool" where
  "triple_lt p q =
     (case p of (a, b, c) \<Rightarrow> case q of (x, y, z) \<Rightarrow>
        a < x \<or> (a = x \<and> (b < y \<or> (b = y \<and> c < z))))"

definition SemVer_lt :: "SemanticVersion \<Rightarrow> pyobj \<Rightarrow> error + cmp" where
  "SemVer_lt self other =
     (case other of
        SemV v \<Rightarrow>
          if (sv_major self, sv_minor self, patch self) \<noteq> (sv_major v, sv_minor v, patch v)
          then Inr (Result (triple_lt (sv_major self, sv_minor self, patch self)
                                      (sv_major v, sv_minor v, patch v)))
          else bind (compare_pre_release (pre_release self) (pre_release v))
                 (\<lambda>r. Inr (Result (r < 0)))
      | _ \<Rightarrow> Inr NotImplemented)"

definition SemVer_str :: "SemanticVersion \<Rightarrow> error + string" where
  "SemVer_str self =
     bind (str_int (sv_major self)) (\<lambda>a.
     bind (str_int (sv_minor self)) (\<lambda>b.
     bind (str_int (patch self)) (\<lambda>c.
       (let version = a @ ''.'' @ b @ ''.'' @ c;
            version = (case pre_release self of
                         None \<Rightarrow> version
                       | Some p \<Rightarrow> if str_truthy p then version @ ''-'' @ p else version);
            version = (case build_metadata self of
                         None \<Rightarrow> version
                       | Some b \<Rightarrow> if str_truthy b then version @ ''+'' @ b else version)
        in Inr version))))"

text \<open>
  The methods that the decorator \<open>total_ordering\<close> derives from \<open>__lt__\<close>. Each calls
  \<open>__lt__\<close> and passes \<open>NotImplemented\<close> on; otherwise \<open>__gt__\<close> returns
  \<open>not (self < other) and self != other\<close>, \<open>__le__\<close> returns
  \<open>self < other or self == other\<close> and \<open>__ge__\<close> returns \<open>not (self < other)\<close>.
\<close>

definition SemVer_gt :: "SemanticVersion \<Rightarrow> pyobj \<Rightarrow> error + cmp" where
  "SemVer_gt self other =
     bind (SemVer_lt self other) (\<lambda>op_result.
       case op_result of
         NotImplemented \<Rightarrow> Inr NotImplemented
       | Result lt \<Rightarrow>
           Inr (Result (\<not> lt \<and> (case SemVer_eq self other of
                                      NotImplemented \<Rightarrow> True
                                    | Result eq \<Rightarrow> \<not> eq))))"



section \<open>The comparison operators\<close>

text \<open>
  Python evaluates \<open>a == b\<close> by calling \<open>a.__eq__(b)\<close>; when that returns
  \<open>NotImplemented\<close> it calls \<open>b.__eq__(a)\<close>, and when that does too the result is
  whether the operands are the same object; \<open>a != b\<close> likewise with \<open>__ne__\<close>, which
  inverts what \<open>__eq__\<close> returns and passes \<open>NotImplemented\<close> on. An ordering
  operator calls the method of the left operand, then the mirrored method of the right
  operand (\<open>__gt__\<close> for \<open><\<close>, \<open>__lt__\<close> for \<open>>\<close>, \<open>__ge__\<close> for \<open><=\<close>,
  \<open>__le__\<close> for \<open>>=\<close>), and raises \<open>TypeError\<close> when both return
  \<open>NotImplemented\<close>. The methods of the built-in values return \<open>NotImplemented\<close> for
  an operand of another class.
\<close>

fun dunder_eq :: "pyobj \<Rightarrow> pyobj \<Rightarrow> error + cmp" where
  "dunder_eq (DottedV v) other = Inr (Result (Version_eq v other))"
| "dunder_eq (SemV v) other = Inr (SemVer_eq v other)"
| "dunder_eq (IntV i) other = Inr (case other of IntV j \<Rightarrow> Result (i = j) | _ \<Rightarrow> NotImplemented)"
| "dunder_eq (StrV s) other = Inr (case other of StrV t \<Rightarrow> Result (s = t) | _ \<Rightarrow> NotImplemented)"
| "dunder_eq NoneV other = Inr (case other of NoneV \<Rightarrow> Result True | _ \<Rightarrow> NotImplemented)"

fun dunder_lt :: "pyobj \<Rightarrow> pyobj \<Rightarrow> error + cmp" where
  "dunder_lt (DottedV v) other = bind (Version_lt v other) (\<lambda>r. Inr (Result r))"
| "dunder_lt (SemV v) other = SemVer_lt v other"
| "dunder_lt (IntV i) other = Inr (case other of IntV j \<Rightarrow> Result (i < j) | _ \<Rightarrow> NotImplemented)"
| "dunder_lt (StrV s) other =
     Inr (case other of StrV t \<Rightarrow> Result (str_lt s t) | _ \<Rightarrow> NotImplemented)"
| "dunder_lt NoneV other = Inr NotImplemented"

text \<open>The dotted version defines no \<open>__gt__\<close>; the one it inherits returns \<open>NotImplemented\<close>.\<close>

fun dunder_gt :: "pyobj \<Rightarrow> pyobj \<Rightarrow> error + cmp" where
  "dunder_gt (DottedV v) other = Inr NotImplemented"
| "dunder_gt (SemV v) other = SemVer_gt v other"
| "dunder_gt (IntV i) other = Inr (case other of IntV j \<Rightarrow> Result (i > j) | _ \<Rightarrow> NotImplemented)"
| "dunder_gt (StrV s) other =
     Inr (case other of StrV t \<Rightarrow> Result (str_lt t s) | _ \<Rightarrow> NotImplemented)"
| "dunder_gt NoneV other = Inr NotImplemented"




text \<open>
  In \<open>py_eq\<close> and \<open>py_ne\<close> the last case is reached only by operands of different
  classes, which are never the same object.
\<close>

definition py_eq :: "pyobj \<Rightarrow> pyobj \<Rightarrow> error + bool" where
  "py_eq a b =
     bind (dunder_eq a b) (\<lambda>r.
       case r of
         Result x \<Rightarrow> Inr x
       | NotImplemented \<Rightarrow>
           bind (dunder_eq b a) (\<lambda>r'.
             case r' of Result x \<Rightarrow> Inr x | NotImplemented \<Rightarrow> Inr False))"

definition py_lt :: "pyobj \<Rightarrow> pyobj \<Rightarrow> error + bool" where
  "py_lt a b =
     bind (dunder_lt a b) (\<lambda>r.
       case r of
         Result x \<Rightarrow> Inr x
       | NotImplemented \<Rightarrow>
           bind (dunder_gt b a) (\<lambda>r'.
             case r' of Result x \<Rightarrow> Inr x | NotImplemented \<Rightarrow> Inl TypeError))"








text \<open>
  A text that the pattern \<open>0|[1-9]\d*\<close> matches as a whole: the form of each of the
  three numbers of a \<open>major.minor.patch\<close> text.
\<close>

definition numeric_id :: "string \<Rightarrow> bool" where
  "numeric_id s = (match_number s = Some (s, []))"

text \<open>The number that a text of decimal digits denotes.\<close>

definition dec_val :: "string \<Rightarrow> nat" where
  "dec_val s = foldl (\<lambda>acc c. 10 * acc + digit_val c) 0 s"

section \<open>Evaluation of the model\<close>

lemmas char_class_defs =
  code_point_def is_decimal_def digit_val_def digit_char_def is_digit_char_def isdigit_def
  is_int_space_def is_word_char_def is_tag_char_def

lemmas parse_version_defs =
  parse_version_def SEMVER_REGEX_match_def match_patch_group_def match_tag_group_def
  at_end_def dict_index_def dict_get_def SemanticVersion_init_def bind_def py_int_opt_def
  py_int_def int_max_str_digits_def str_truthy_def opt_truthy_def

section \<open>The dotted version\<close>

text \<open>The guard of \<open>Version.parse\<close> holds for every text, so every call raises.\<close>

lemma Version_parse_raises: "Version_parse version = Inl MalformedVersionError"
  by (simp add: Version_parse_def str_truthy_def)

text \<open>
  C1 (the code departs from the claim). The claim: parsing a text of one to four
  dot-separated non-negative integers without \<open>+\<close> or \<open>-\<close> succeeds, and
  \<open>parse("1.2.3.4")\<close> and \<open>parse("1.2")\<close> render back to their texts. In the code both
  calls raise \<open>MalformedVersionError\<close>.
\<close>

theorem Version_parse_rejects_well_formed:
  "Version_parse ''1.2.3.4'' = Inl MalformedVersionError
   \<and> Version_parse ''1.2'' = Inl MalformedVersionError"
  by (simp add: Version_parse_def str_truthy_def)

text \<open>
  C4. \<open>a < b\<close> on dotted versions is true exactly when some component of \<open>a\<close> is
  strictly smaller than the same component of \<open>b\<close>, whatever the earlier components
  are; for the versions 1.2 and 2.1 both \<open>a < b\<close> and \<open>b < a\<close> are true.
\<close>

theorem Version_lt_any_component:
  "Version_lt a (DottedV b) =
     Inr (major a < major b \<or> minor a < minor b \<or> build a < build b
          \<or> revision a < revision b)
   \<and> Version_lt (Version2 1 2) (DottedV (Version2 2 1)) = Inr True
   \<and> Version_lt (Version2 2 1) (DottedV (Version2 1 2)) = Inr True"
  by (simp add: Version_lt_def Version2_def)

text \<open>
  C8 (the code departs from the claim). The claim: the default rendering shows all four
  components whenever the revision is positive. In the code the version 1.2.3.4 renders
  as \<open>1.2\<close>: the test on the minor component comes last and overrides the field count.
\<close>

theorem Version_str_drops_revision:
  "Version_str (Version4 1 2 3 4) = Inr ''1.2''"
  by (simp add: Version_str_def Version_to_string_def Version4_def str_int_def str_nat.simps
        digit_char_def bind_def int_max_str_digits_def)

text \<open>
  C10. Two dotted versions that are equal under \<open>__eq__\<close> have the same hash: the hash
  is computed from the four components that equality compares.
\<close>

theorem Version_eq_hash:
  "Version_eq a (DottedV b) \<Longrightarrow> Version_hash a = Version_hash b"
  by (simp add: Version_eq_def Version_hash_def)

theorem Version_eq_hash_witness:
  "Version_eq (Version4 1 2 3 4) (DottedV (Version4 1 2 3 4))
   \<and> Version_hash (Version4 1 2 3 4) = Version_hash (Version4 1 2 3 4)
   \<and> Version_hash (Version4 1 2 3 4) = 270544900"
  using Version_eq_hash [of "Version4 1 2 3 4" "Version4 1 2 3 4"]
  by (simp add: Version_eq_def Version4_def Version_hash_def)

section \<open>The semantic version\<close>

text \<open>
  C2 (the code departs from the claim). The claim: parsing a text without a patch segment
  succeeds with patch 0. In the code the dictionary of groups has the key \<open>patch\<close> with
  the value \<open>None\<close>, so the default of \<open>get\<close> is not used and \<open>int(None)\<close> raises
  \<open>TypeError\<close>.
\<close>

theorem parse_version_without_patch:
  "parse_version ''1.0'' = Inl TypeError"
  by (simp add: parse_version_defs char_class_defs)

text \<open>
  C3 (the code departs from the claim). The claim: the first differing pair of tokens
  decides the order of two pre-release texts. In the code a pair whose left token is the
  greater one is passed over, and a later pair decides: \<open>1.0.0-beta.1 < 1.0.0-alpha.2\<close>
  is true, and so is \<open>1.0.0-alpha.2 < 1.0.0-beta.1\<close>.
\<close>

theorem pre_release_later_pair_decides:
  "parse_version ''1.0.0-beta.1'' =
     Inr \<lparr>sv_major = 1, sv_minor = 0, patch = 0, pre_release = Some ''beta.1'',
          build_metadata = None\<rparr>
   \<and> parse_version ''1.0.0-alpha.2'' =
     Inr \<lparr>sv_major = 1, sv_minor = 0, patch = 0, pre_release = Some ''alpha.2'',
          build_metadata = None\<rparr>
   \<and> py_lt (SemV \<lparr>sv_major = 1, sv_minor = 0, patch = 0, pre_release = Some ''beta.1'',
                   build_metadata = None\<rparr>)
            (SemV \<lparr>sv_major = 1, sv_minor = 0, patch = 0, pre_release = Some ''alpha.2'',
                   build_metadata = None\<rparr>) = Inr True
   \<and> py_lt (SemV \<lparr>sv_major = 1, sv_minor = 0, patch = 0, pre_release = Some ''alpha.2'',
                   build_metadata = None\<rparr>)
            (SemV \<lparr>sv_major = 1, sv_minor = 0, patch = 0, pre_release = Some ''beta.1'',
                   build_metadata = None\<rparr>) = Inr True"
  by (simp add: parse_version_defs char_class_defs py_lt_def SemVer_lt_def
        compare_pre_release_def token_key_def)

text \<open>The comparison methods do not read the build metadata.\<close>

lemma SemVer_eq_build_metadata:
  "SemVer_eq (a\<lparr>build_metadata := x\<rparr>) (SemV (b\<lparr>build_metadata := y\<rparr>))
   = SemVer_eq a (SemV b)"
  by (simp add: SemVer_eq_def)

lemma SemVer_lt_build_metadata:
  "SemVer_lt (a\<lparr>build_metadata := x\<rparr>) (SemV (b\<lparr>build_metadata := y\<rparr>))
   = SemVer_lt a (SemV b)"
  by (simp add: SemVer_lt_def)

lemma SemVer_gt_build_metadata:
  "SemVer_gt (a\<lparr>build_metadata := x\<rparr>) (SemV (b\<lparr>build_metadata := y\<rparr>))
   = SemVer_gt a (SemV b)"
  by (simp add: SemVer_gt_def SemVer_lt_build_metadata SemVer_eq_build_metadata
        cong: cmp.case_cong)

text \<open>
  C6. Replacing the build metadata of either operand by any other value changes neither
  \<open>a == b\<close> nor \<open>a < b\<close> (results and exceptions alike); the parsed versions
  \<open>1.0.0+build1\<close> and \<open>1.0.0+build2\<close> differ in build metadata and are equal.
\<close>

theorem build_metadata_ignored:
  "py_eq (SemV (a\<lparr>build_metadata := x\<rparr>)) (SemV (b\<lparr>build_metadata := y\<rparr>))
     = py_eq (SemV a) (SemV b)
   \<and> py_lt (SemV (a\<lparr>build_metadata := x\<rparr>)) (SemV (b\<lparr>build_metadata := y\<rparr>))
     = py_lt (SemV a) (SemV b)
   \<and> (\<exists>v w. parse_version ''1.0.0+build1'' = Inr v \<and> parse_version ''1.0.0+build2'' = Inr w
          \<and> build_metadata v \<noteq> build_metadata w \<and> py_eq (SemV v) (SemV w) = Inr True)"
proof (intro conjI)
  show "py_eq (SemV (a\<lparr>build_metadata := x\<rparr>)) (SemV (b\<lparr>build_metadata := y\<rparr>))
        = py_eq (SemV a) (SemV b)"
    by (simp add: py_eq_def SemVer_eq_build_metadata cong: cmp.case_cong)
  show "py_lt (SemV (a\<lparr>build_metadata := x\<rparr>)) (SemV (b\<lparr>build_metadata := y\<rparr>))
        = py_lt (SemV a) (SemV b)"
    by (simp add: py_lt_def SemVer_lt_build_metadata SemVer_gt_build_metadata
          cong: cmp.case_cong)
  have p1: "parse_version ''1.0.0+build1'' =
              Inr \<lparr>sv_major = 1, sv_minor = 0, patch = 0, pre_release = None,
                   build_metadata = Some ''build1''\<rparr>"
    by (simp add: parse_version_defs char_class_defs)
  have p2: "parse_version ''1.0.0+build2'' =
              Inr \<lparr>sv_major = 1, sv_minor = 0, patch = 0, pre_release = None,
                   build_metadata = Some ''build2''\<rparr>"
    by (simp add: parse_version_defs char_class_defs)
  show "\<exists>v w. parse_version ''1.0.0+build1'' = Inr v \<and> parse_version ''1.0.0+build2'' = Inr w
          \<and> build_metadata v \<noteq> build_metadata w \<and> py_eq (SemV v) (SemV w) = Inr True"
    unfolding p1 p2 by (simp add: py_eq_def SemVer_eq_def bind_def)
qed

text \<open>
  C7. When the numeric components are equal and exactly one operand has a pre-release
  text, the operand with the pre-release is less than the one without, the converse
  comparison is false, and the two are not equal.
\<close>

theorem release_above_pre_release:
  "sv_major a = sv_major b \<Longrightarrow> sv_minor a = sv_minor b \<Longrightarrow> patch a = patch b \<Longrightarrow>
   pre_release a = None \<Longrightarrow> pre_release b = Some p \<Longrightarrow>
   py_lt (SemV b) (SemV a) = Inr True \<and> py_lt (SemV a) (SemV b) = Inr False
   \<and> py_eq (SemV a) (SemV b) = Inr False"
  by (simp add: py_eq_def py_lt_def SemVer_eq_def SemVer_lt_def compare_pre_release_def
        bind_def)

theorem release_above_pre_release_witness:
  "parse_version ''1.0.0'' =
     Inr \<lparr>sv_major = 1, sv_minor = 0, patch = 0, pre_release = None, build_metadata = None\<rparr>
   \<and> parse_version ''1.0.0-alpha'' =
     Inr \<lparr>sv_major = 1, sv_minor = 0, patch = 0, pre_release = Some ''alpha'',
          build_metadata = None\<rparr>
   \<and> py_lt (SemV \<lparr>sv_major = 1, sv_minor = 0, patch = 0, pre_release = Some ''alpha'',
                   build_metadata = None\<rparr>)
            (SemV \<lparr>sv_major = 1, sv_minor = 0, patch = 0, pre_release = None,
                   build_metadata = None\<rparr>) = Inr True
   \<and> py_lt (SemV \<lparr>sv_major = 1, sv_minor = 0, patch = 0, pre_release = None,
                   build_metadata = None\<rparr>)
            (SemV \<lparr>sv_major = 1, sv_minor = 0, patch = 0, pre_release = Some ''alpha'',
                   build_metadata = None\<rparr>) = Inr False"
  using release_above_pre_release
    [of "\<lparr>sv_major = 1, sv_minor = 0, patch = 0, pre_release = None, build_metadata = None\<rparr>"
        "\<lparr>sv_major = 1, sv_minor = 0, patch = 0, pre_release = Some ''alpha'',
          build_metadata = None\<rparr>"
        "''alpha''"]
  by (simp add: parse_version_defs char_class_defs)

section \<open>Decimal texts\<close>

lemma digit_cases: "d < 10 \<Longrightarrow> d \<in> {0, 1, 2, 3, 4, 5, 6, 7, 8, 9::nat}"
  by auto

lemma digit_char_props:
  assumes "d < 10"
  shows "is_decimal (digit_char d)" and "digit_val (digit_char d) = d"
    and "(digit_char d = CHR ''0'') = (d = 0)"
  using digit_cases [OF assms]
  by (auto simp: char_class_defs)

lemma decimal_not_special:
  assumes "is_decimal c"
  shows "\<not> is_int_space c" and "c \<noteq> CHR ''-''" and "c \<noteq> CHR ''+''" and "c \<noteq> CHR ''.''"
    and "c \<noteq> CHR ''_''"
  using assms by (auto simp: char_class_defs)

lemma not_decimal_dot: "\<not> is_decimal (CHR ''.'')"
  by (simp add: char_class_defs)

lemma digit_val_le: "is_decimal c \<Longrightarrow> digit_val c \<le> 9"
  by (auto simp: is_decimal_def digit_val_def)

lemma scan_int_decimal:
  "list_all is_decimal cs \<Longrightarrow>
   scan_int acc k cs = Some (foldl (\<lambda>acc c. 10 * acc + digit_val c) acc cs, k + length cs, [])"
  by (induction cs arbitrary: acc k) simp_all

text \<open>\<open>int()\<close> on a text of decimal digits: the limit is on the length of the text.\<close>

lemma py_int_decimal:
  assumes "s \<noteq> []" and "list_all is_decimal s"
  shows "py_int s =
           (if length s > int_max_str_digits then Inl ValueError else Inr (int (dec_val s)))"
proof -
  obtain c cs where s: "s = c # cs" using assms(1) by (cases s) auto
  have c: "is_decimal c" and cs: "list_all is_decimal cs" using assms(2) s by auto
  have "dropWhile is_int_space s = s" using s decimal_not_special(1) [OF c] by simp
  moreover have "foldl (\<lambda>acc c. 10 * acc + digit_val c) (digit_val c) cs = dec_val s"
    by (simp add: dec_val_def s)
  ultimately show ?thesis
    using c decimal_not_special(2,3) [OF c] scan_int_decimal [OF cs, of "digit_val c" 1]
    by (simp add: py_int_def s)
qed

lemma numeric_id_decimal:
  assumes "numeric_id s"
  shows "s \<noteq> []" and "list_all is_decimal s"
proof -
  obtain c cs where s: "s = c # cs" using assms by (cases s) (auto simp: numeric_id_def)
  show "s \<noteq> []" by (simp add: s)
  have z: "is_decimal (CHR ''0'')" by (simp add: char_class_defs)
  show "list_all is_decimal s"
  proof (cases "c = CHR ''0''")
    case True
    then show ?thesis using assms z by (simp add: numeric_id_def s)
  next
    case False
    then have c: "is_decimal c" and d: "dropWhile is_decimal cs = []"
      using assms by (auto simp: numeric_id_def s split: if_splits)
    from d have "list_all is_decimal cs" by (simp add: list_all_iff)
    with c show ?thesis by (simp add: s)
  qed
qed

lemma match_number_append:
  assumes "numeric_id s" and "r = [] \<or> \<not> is_decimal (hd r)"
  shows "match_number (s @ r) = Some (s, r)"
proof -
  obtain c cs where s: "s = c # cs" using assms(1) by (cases s) (auto simp: numeric_id_def)
  have r: "takeWhile is_decimal r = []" "dropWhile is_decimal r = r"
    using assms(2) by (cases r; simp)+
  show ?thesis
  proof (cases "c = CHR ''0''")
    case True
    then show ?thesis using assms(1) by (simp add: numeric_id_def s)
  next
    case False
    have "list_all is_decimal s" by (rule numeric_id_decimal [OF assms(1)])
    then have c: "is_decimal c" and cs: "\<And>x. x \<in> set cs \<Longrightarrow> is_decimal x"
      by (auto simp: s list_all_iff)
    show ?thesis
      using False c r by (simp add: s takeWhile_append2 [OF cs] dropWhile_append2 [OF cs])
  qed
qed

lemma str_nat_small: "n < 10 \<Longrightarrow> str_nat n = [digit_char n]"
  by (subst str_nat.simps) simp

lemma str_nat_large:
  "\<not> n < 10 \<Longrightarrow> str_nat n = str_nat (n div 10) @ [digit_char (n mod 10)]"
  by (subst str_nat.simps) simp

lemma str_nat_decimal: "list_all is_decimal (str_nat n)"
proof (induction n rule: str_nat.induct)
  case (1 n)
  show ?case
  proof (cases "n < 10")
    case True
    then show ?thesis by (simp add: str_nat_small digit_char_props(1))
  next
    case False
    have "n mod 10 < 10" by simp
    then have "is_decimal (digit_char (n mod 10))" by (rule digit_char_props(1))
    with False 1 show ?thesis by (simp add: str_nat_large)
  qed
qed

lemma str_nat_nonempty: "str_nat n \<noteq> []"
  by (cases "n < 10") (simp_all add: str_nat_small str_nat_large)

lemma str_nat_hd: "0 < n \<Longrightarrow> hd (str_nat n) \<noteq> CHR ''0''"
proof (induction n rule: str_nat.induct)
  case (1 n)
  show ?case
  proof (cases "n < 10")
    case True
    then show ?thesis using 1(2) by (simp add: str_nat_small digit_char_props(3))
  next
    case False
    then have "0 < n div 10" by simp
    with 1(1) False have "hd (str_nat (n div 10)) \<noteq> CHR ''0''" by simp
    then show ?thesis using False str_nat_nonempty [of "n div 10"]
      by (simp add: str_nat_large)
  qed
qed

lemma dec_val_snoc: "dec_val (s @ [c]) = 10 * dec_val s + digit_val c"
  by (simp add: dec_val_def)

lemma dec_val_str_nat: "dec_val (str_nat n) = n"
proof (induction n rule: str_nat.induct)
  case (1 n)
  show ?case
  proof (cases "n < 10")
    case True
    then show ?thesis by (simp add: str_nat_small dec_val_def digit_char_props(2))
  next
    case False
    have "digit_val (digit_char (n mod 10)) = n mod 10" by (rule digit_char_props(2)) simp
    with False 1 show ?thesis by (simp add: str_nat_large dec_val_snoc)
  qed
qed

lemma numeric_id_str_nat: "numeric_id (str_nat n)"
proof (cases "n = 0")
  case True
  then show ?thesis by (simp add: numeric_id_def str_nat_small digit_char_def)
next
  case False
  obtain c cs where s: "str_nat n = c # cs"
    using str_nat_nonempty [of n] by (cases "str_nat n") auto
  have "hd (str_nat n) \<noteq> CHR ''0''" using False by (simp add: str_nat_hd)
  then have c0: "c \<noteq> CHR ''0''" by (simp add: s)
  have "list_all is_decimal (c # cs)" using str_nat_decimal [of n] by (simp add: s)
  then have c: "is_decimal c" and cs: "\<forall>x\<in>set cs. is_decimal x" by (auto simp: list_all_iff)
  show ?thesis using c0 c cs by (simp add: numeric_id_def s)
qed

text \<open>A text of \<open>k\<close> digits denotes a number below \<open>10 ^ k\<close>, which has at most \<open>k\<close> digits.\<close>

lemma dec_val_bound: "list_all is_decimal s \<Longrightarrow> dec_val s < 10 ^ length s"
proof (induction s rule: rev_induct)
  case Nil
  show ?case by (simp add: dec_val_def)
next
  case (snoc c s)
  then have "dec_val s < 10 ^ length s" and "digit_val c \<le> 9"
    by (simp_all add: digit_val_le)
  then show ?case by (simp add: dec_val_snoc)
qed

lemma str_nat_length: "n < 10 ^ k \<Longrightarrow> 0 < k \<Longrightarrow> length (str_nat n) \<le> k"
proof (induction n arbitrary: k rule: str_nat.induct)
  case (1 n)
  show ?case
  proof (cases "n < 10")
    case True
    then show ?thesis using 1(3) by (simp add: str_nat_small)
  next
    case False
    obtain j where k: "k = Suc j" using 1(3) by (cases k) auto
    have j: "0 < j" using False 1(2) by (cases j) (auto simp: k)
    have "n div 10 < 10 ^ j" using 1(2) by (simp add: k less_mult_imp_div_less mult.commute)
    with 1(1) False j have "length (str_nat (n div 10)) \<le> j" by simp
    then show ?thesis using False by (simp add: str_nat_large k)
  qed
qed

lemma str_nat_dec_val_length:
  assumes "numeric_id s"
  shows "length (str_nat (dec_val s)) \<le> length s"
  using numeric_id_decimal [OF assms] by (simp add: str_nat_length dec_val_bound)

lemma str_int_nat:
  "length (str_nat n) \<le> int_max_str_digits \<Longrightarrow> str_int (int n) = Inr (str_nat n)"
  by (simp add: str_int_def)

section \<open>Parsing and rendering three numbers\<close>

lemma match_number_dot:
  "numeric_id s \<Longrightarrow> match_number (s @ CHR ''.'' # r) = Some (s, CHR ''.'' # r)"
  by (rule match_number_append) (simp_all add: not_decimal_dot)

lemma match_number_whole: "numeric_id s \<Longrightarrow> match_number s = Some (s, [])"
  by (simp add: numeric_id_def)

lemma SEMVER_REGEX_match_three:
  assumes "numeric_id a" and "numeric_id b" and "numeric_id c"
  shows "SEMVER_REGEX_match (a @ ''.'' @ b @ ''.'' @ c) =
           Some [''major'' \<mapsto> Some a, ''minor'' \<mapsto> Some b, ''patch'' \<mapsto> Some c,
                 ''pre_release'' \<mapsto> None, ''build_metadata'' \<mapsto> None]"
  using assms
  by (simp add: SEMVER_REGEX_match_def match_number_dot match_number_whole
        match_patch_group_def match_tag_group_def at_end_def)

lemma parse_version_three:
  assumes "numeric_id a" and "numeric_id b" and "numeric_id c"
    and "length a \<le> int_max_str_digits" and "length b \<le> int_max_str_digits"
    and "length c \<le> int_max_str_digits"
  shows "parse_version (a @ ''.'' @ b @ ''.'' @ c) =
           Inr \<lparr>sv_major = int (dec_val a), sv_minor = int (dec_val b), patch = int (dec_val c),
                pre_release = None, build_metadata = None\<rparr>"
proof -
  have "py_int a = Inr (int (dec_val a))" "py_int b = Inr (int (dec_val b))"
    "py_int c = Inr (int (dec_val c))"
    using assms by (simp_all add: py_int_decimal numeric_id_decimal)
  then show ?thesis
    unfolding parse_version_def SEMVER_REGEX_match_three [OF assms(1-3)]
    by (simp add: dict_index_def dict_get_def SemanticVersion_init_def bind_def py_int_opt_def)
qed

text \<open>A first number of more than \<open>int_max_str_digits\<close> digits makes \<open>int()\<close> raise.\<close>

lemma parse_version_long_major:
  assumes "numeric_id a" and "numeric_id b" and "numeric_id c"
    and "length a > int_max_str_digits"
  shows "parse_version (a @ ''.'' @ b @ ''.'' @ c) = Inl ValueError"
proof -
  have "py_int a = Inl ValueError"
    using assms by (simp add: py_int_decimal numeric_id_decimal)
  then show ?thesis
    unfolding parse_version_def SEMVER_REGEX_match_three [OF assms(1-3)]
    by (simp add: dict_index_def dict_get_def SemanticVersion_init_def bind_def py_int_opt_def)
qed

lemma numeric_id_ones: "numeric_id (CHR ''1'' # replicate n (CHR ''1''))"
  by (simp add: numeric_id_def char_class_defs)

lemma SemVer_str_three:
  assumes "length (str_nat x) \<le> int_max_str_digits"
    and "length (str_nat y) \<le> int_max_str_digits"
    and "length (str_nat z) \<le> int_max_str_digits"
  shows "SemVer_str \<lparr>sv_major = int x, sv_minor = int y, patch = int z, pre_release = None,
                     build_metadata = None\<rparr>
         = Inr (str_nat x @ ''.'' @ str_nat y @ ''.'' @ str_nat z)"
  using assms by (simp add: SemVer_str_def str_int_nat bind_def)

lemma py_eq_refl: "py_eq (SemV v) (SemV v) = Inr True"
  by (simp add: py_eq_def SemVer_eq_def bind_def)

text \<open>
  C5, as the claim states it, fails: a text whose three numbers have the form the pattern
  requires, but whose first number has 4301 digits, does not parse. The pattern matches
  and \<open>int()\<close> raises \<open>ValueError\<close>, so there is no parsed version to render.
\<close>

theorem parse_version_digit_limit:
  "numeric_id (CHR ''1'' # replicate 4300 (CHR ''1'')) \<and> numeric_id ''0''
   \<and> parse_version ((CHR ''1'' # replicate 4300 (CHR ''1'')) @ ''.'' @ ''0'' @ ''.'' @ ''0'')
       = Inl ValueError"
proof -
  have z: "numeric_id ''0''" by (simp add: numeric_id_def)
  have l: "length (CHR ''1'' # replicate 4300 (CHR ''1'')) > int_max_str_digits"
    by (simp add: int_max_str_digits_def)
  show ?thesis
    using numeric_id_ones [of 4300] z parse_version_long_major [OF numeric_id_ones z z l]
    by blast
qed

text \<open>
  C5, amended. For every text \<open>major.minor.patch\<close> whose three numbers have the form the
  pattern requires and at most 4300 digits each, parsing succeeds, rendering the result
  succeeds, and parsing the rendering succeeds with a version equal to the first one
  under \<open>==\<close>.
\<close>

theorem parse_render_parse:
  assumes "numeric_id a" and "numeric_id b" and "numeric_id c"
    and "length a \<le> int_max_str_digits" and "length b \<le> int_max_str_digits"
    and "length c \<le> int_max_str_digits"
  shows "\<exists>v s v'. parse_version (a @ ''.'' @ b @ ''.'' @ c) = Inr v
           \<and> SemVer_str v = Inr s
           \<and> parse_version s = Inr v'
           \<and> py_eq (SemV v') (SemV v) = Inr True"
proof -
  let ?v = "\<lparr>sv_major = int (dec_val a), sv_minor = int (dec_val b), patch = int (dec_val c),
             pre_release = None, build_metadata = None\<rparr>"
  let ?s = "str_nat (dec_val a) @ ''.'' @ str_nat (dec_val b) @ ''.'' @ str_nat (dec_val c)"
  have first: "parse_version (a @ ''.'' @ b @ ''.'' @ c) = Inr ?v"
    by (rule parse_version_three [OF assms])
  have la: "length (str_nat (dec_val a)) \<le> int_max_str_digits"
    using str_nat_dec_val_length [OF assms(1)] assms(4) by simp
  have lb: "length (str_nat (dec_val b)) \<le> int_max_str_digits"
    using str_nat_dec_val_length [OF assms(2)] assms(5) by simp
  have lc: "length (str_nat (dec_val c)) \<le> int_max_str_digits"
    using str_nat_dec_val_length [OF assms(3)] assms(6) by simp
  have rendered: "SemVer_str ?v = Inr ?s"
    by (rule SemVer_str_three [OF la lb lc])
  have again: "parse_version ?s = Inr ?v"
    by (simp only: parse_version_three
          [OF numeric_id_str_nat numeric_id_str_nat numeric_id_str_nat la lb lc]
          dec_val_str_nat)
  show ?thesis using first rendered again py_eq_refl [of ?v] by blast
qed

theorem parse_render_parse_witness:
  "numeric_id ''1'' \<and> numeric_id ''20'' \<and> numeric_id ''3''
   \<and> length ''1'' \<le> int_max_str_digits \<and> length ''20'' \<le> int_max_str_digits
   \<and> length ''3'' \<le> int_max_str_digits
   \<and> (\<exists>v s v'. parse_version ''1.20.3'' = Inr v \<and> SemVer_str v = Inr s
         \<and> parse_version s = Inr v' \<and> py_eq (SemV v') (SemV v) = Inr True)"
proof -
  have n: "numeric_id ''1''" "numeric_id ''20''" "numeric_id ''3''"
    by (simp_all add: numeric_id_def char_class_defs)
  have l: "length ''1'' \<le> int_max_str_digits" "length ''20'' \<le> int_max_str_digits"
    "length ''3'' \<le> int_max_str_digits"
    by (simp_all add: int_max_str_digits_def)
  show ?thesis using n l parse_render_parse [OF n l] by simp
qed

section \<open>Operands of different classes\<close>




end
